theory Spec2Isabelle
  imports Main "HOL-Library.AList" "HOL-Library.Sublist"
begin

section \<open>The deployer of Hodor: data model\<close>

text \<open>
  The development follows the package \<open>deployer\<close> (type \<open>FileDeployer\<close>) of the
  repository. Everything the Go code reaches through a pointer or through the operating
  system is passed explicitly: the key-value store, the job channel, the log and the
  file system. Go's \<open>error\<close> results are the left summand of a sum type, with the text
  that \<open>Error()\<close> would return.
\<close>

subsection \<open>Job statuses and their serialisation\<close>

record JobStatus =
  Status :: string
  Message :: string

text \<open>
  The interface \<open>Serde\<close>. The production value \<open>defaultSerde\<close> is \<open>JSONSerde\<close>, a
  wrapper around the standard JSON encoder, which is not part of the repository: a
  serde is therefore a pair of functions carried by the deployer, as the field
  \<open>serde\<close> of the Go struct is.
\<close>

record Serde =
  Marshal :: "JobStatus \<Rightarrow> string + string"
  Unmarshal :: "string \<Rightarrow> string + JobStatus"

text \<open>
  \<open>fakeSerde\<close> of the test file: \<open>Marshal\<close> returns no bytes and the configured error,
  \<open>Unmarshal\<close> returns the configured error and leaves the zero status untouched.
\<close>

definition fakeSerde :: "string option \<Rightarrow> Serde" where
  "fakeSerde err =
     \<lparr>Marshal = (\<lambda>v. case err of None \<Rightarrow> Inr [] | Some e \<Rightarrow> Inl e),
      Unmarshal = (\<lambda>data. case err of None \<Rightarrow> Inr \<lparr>Status = [], Message = []\<rparr>
                                     | Some e \<Rightarrow> Inl e)\<rparr>"

text \<open>
  A serde that really stores both fields, for the worked examples: the status, a line
  feed, the message.
\<close>

definition lineSerde :: Serde where
  "lineSerde =
     \<lparr>Marshal = (\<lambda>v. Inr (Status v @ CHR 0x0A # Message v)),
      Unmarshal = (\<lambda>data. Inr \<lparr>Status = takeWhile (\<lambda>c. c \<noteq> CHR 0x0A) data,
                                Message = drop 1 (dropWhile (\<lambda>c. c \<noteq> CHR 0x0A) data)\<rparr>)\<rparr>"

text \<open>A serde round-trips a status when unmarshalling its marshalled form gives it back.\<close>

definition roundtrips :: "Serde \<Rightarrow> JobStatus \<Rightarrow> bool" where
  "roundtrips sd v =
     (case Marshal sd v of Inl e \<Rightarrow> False | Inr buf \<Rightarrow> Unmarshal sd buf = Inr v)"

subsection \<open>The key-value store\<close>

text \<open>
  The store (\<open>buntdb.DB\<close>) is a map from keys to values that can be closed. A
  transaction on a closed store fails; a read of an absent key fails with \<open>ErrNotFound\<close>,
  the error \<open>GetStatus\<close> compares against.
\<close>

datatype dberr = ErrNotFound | ErrDatabaseClosed

fun dberr_text :: "dberr \<Rightarrow> string" where
  "dberr_text ErrNotFound = ''not found''"
| "dberr_text ErrDatabaseClosed = ''database closed''"

record DB =
  db_kv :: "string \<rightharpoonup> string"
  db_closed :: bool

definition db_Set :: "DB \<Rightarrow> string \<Rightarrow> string \<Rightarrow> dberr + DB" where
  "db_Set d k v =
     (if db_closed d then Inl ErrDatabaseClosed else Inr (d\<lparr>db_kv := (db_kv d)(k \<mapsto> v)\<rparr>))"

definition db_Get :: "DB \<Rightarrow> string \<Rightarrow> dberr + string" where
  "db_Get d k =
     (if db_closed d then Inl ErrDatabaseClosed
      else case db_kv d k of None \<Rightarrow> Inl ErrNotFound | Some v \<Rightarrow> Inr v)"

subsection \<open>Channels\<close>

text \<open>
  A channel is nil, or has a capacity, the buffered elements in arrival order and a
  closed flag. A send inside \<open>select\<close> with a \<open>default\<close> branch goes through when the
  buffer has room, takes the default branch when it has none or the channel is nil,
  and panics on a closed channel. A receiver waiting on the channel of capacity
  \<open>jobSize\<close> that \<open>Start\<close> creates means an empty buffer, so for that channel "room in
  the buffer" is exactly when the send goes through.
\<close>

datatype 'a chan = NilChan | Chan (chan_cap: nat) (chan_buf: "'a list") (chan_closed: bool)

datatype 'a send_result = Sent "'a chan" | WouldBlock | SendPanic

fun try_send :: "'a chan \<Rightarrow> 'a \<Rightarrow> 'a send_result" where
  "try_send NilChan x = WouldBlock"
| "try_send (Chan n xs cl) x =
     (if cl then SendPanic
      else if length xs < n then Sent (Chan n (xs @ [x]) cl)
      else WouldBlock)"

text \<open>
  A receive (one round of \<open>for job := range fd.jobs\<close>) takes the oldest buffered
  element, also from a closed channel; on an empty channel it ends the loop when the
  channel is closed and waits otherwise.
\<close>

datatype 'a recv_result = Received 'a "'a chan" | ChanClosed | WouldWait

fun recv :: "'a chan \<Rightarrow> 'a recv_result" where
  "recv NilChan = WouldWait"
| "recv (Chan n [] cl) = (if cl then ChanClosed else WouldWait)"
| "recv (Chan n (x # xs) cl) = Received x (Chan n xs cl)"

fun close_chan :: "'a chan \<Rightarrow> 'a chan option" where
  "close_chan NilChan = None"
| "close_chan (Chan n xs cl) = (if cl then None else Some (Chan n xs True))"

subsection \<open>Archives\<close>

text \<open>
  What the HTTP client returns for a URL is the body as the gzip and tar readers see
  it: either not a gzip stream (\<open>gzip.NewReader\<close> fails with the given text), or a
  sequence of tar entries followed by the end of the stream (\<open>io.EOF\<close>) or by a read
  error. An entry has its header (type flag and name), the bytes that \<open>io.Copy\<close> can
  read from it, and the error that ends the copy early, if any.
\<close>

record header =
  Typeflag :: char
  Name :: string

definition TypeReg :: char where "TypeReg = CHR ''0''"
definition TypeDir :: char where "TypeDir = CHR ''5''"

record entry =
  hdr :: header
  data :: string
  copy_err :: "string option"

type_synonym tar = "entry list \<times> string option"

datatype body = NotGzip string | Gzip tar

datatype next_result = Hdr entry tar | EOF | NextErr string

fun Next :: "tar \<Rightarrow> next_result" where
  "Next ([], None) = EOF"
| "Next ([], Some e) = NextErr e"
| "Next (x # xs, fin) = Hdr x (xs, fin)"

subsection \<open>Jobs and the deployer\<close>

record job =
  job_id :: string
  releaseID :: string
  releaseURL :: string

text \<open>\<open>newJob\<close>; the first argument is the identifier that \<open>xid.New().String()\<close> returns.\<close>

definition newJob :: "string \<Rightarrow> string \<Rightarrow> string \<Rightarrow> job" where
  "newJob xid rid url = \<lparr>job_id = xid, releaseID = rid, releaseURL = url\<rparr>"

definition jobSize :: nat where
  "jobSize = 50"

text \<open>
  The struct \<open>FileDeployer\<close>. The field \<open>logger\<close> holds the lines written at error
  level, oldest first, each with its \<open>error\<close> field and its message; informational
  lines are left out.
\<close>

record logline =
  log_error :: string
  log_msg :: string

record FileDeployer =
  db :: DB
  config :: "string \<rightharpoonup> string"
  jobs :: "job chan"
  stop :: bool
  client :: "string \<Rightarrow> string + body"
  serde :: Serde
  logger :: "logline list"

datatype error = Error string | Panic string

section \<open>Submitting jobs and reading their status\<close>

definition saveJobStatus ::
  "FileDeployer \<Rightarrow> string \<Rightarrow> string \<Rightarrow> string \<Rightarrow> string + FileDeployer" where
  "saveJobStatus fd jobID status message =
     (case Marshal (serde fd) \<lparr>Status = status, Message = message\<rparr> of
        Inl e \<Rightarrow> Inl (''failed to marshal status: '' @ e)
      | Inr buf \<Rightarrow>
          (case db_Set (db fd) jobID buf of
             Inl e \<Rightarrow> Inl (''failed to save status: '' @ dberr_text e)
           | Inr d \<Rightarrow> Inr (fd\<lparr>db := d\<rparr>)))"

definition getStop :: "FileDeployer \<Rightarrow> bool" where
  "getStop fd = stop fd"

text \<open>
  \<open>Deploy\<close>. The argument \<open>xid\<close> is the fresh identifier drawn by \<open>newJob\<close>. The result
  is the returned pair (job id or error) and the deployer afterwards.
\<close>

definition Deploy ::
  "string \<Rightarrow> FileDeployer \<Rightarrow> string \<Rightarrow> string \<Rightarrow> (error + string) \<times> FileDeployer" where
  "Deploy xid fd rid url =
     (if getStop fd then (Inl (Error ''deployer is stopped''), fd)
      else
        let job = newJob xid rid url in
        case saveJobStatus fd (job_id job) ''created'' ''job has been created'' of
          Inl e \<Rightarrow> (Inl (Error (''failed to set job status: '' @ e)), fd)
        | Inr fd1 \<Rightarrow>
            (case try_send (jobs fd1) job of
               Sent c \<Rightarrow> (Inr (job_id job), fd1\<lparr>jobs := c\<rparr>)
             | WouldBlock \<Rightarrow> (Inl (Error ''buffer is full, re-try later''), fd1)
             | SendPanic \<Rightarrow> (Inl (Panic ''send on closed channel''), fd1)))"

text \<open>
  \<open>GetStatus\<close>. The first argument is the rendering of \<open>%q\<close> (Go's quoting of a
  string), which belongs to the standard library.
\<close>

definition GetStatus ::
  "(string \<Rightarrow> string) \<Rightarrow> FileDeployer \<Rightarrow> string \<Rightarrow> string + JobStatus" where
  "GetStatus fmtq fd key =
     (case db_Get (db fd) key of
        Inl ErrNotFound \<Rightarrow> Inl (''key '' @ fmtq key @ '' not found'')
      | Inl e \<Rightarrow> Inl (''failed to get status: '' @ dberr_text e)
      | Inr statusBuf \<Rightarrow>
          (case Unmarshal (serde fd) statusBuf of
             Inl e \<Rightarrow> Inl (''failed to unmarshal job status: '' @ e)
           | Inr jobStatus \<Rightarrow> Inr jobStatus))"

definition created_status :: JobStatus where
  "created_status = \<lparr>Status = ''created'', Message = ''job has been created''\<rparr>"

section \<open>The file system\<close>

text \<open>
  A file-system object is a regular file (permission bits and bytes) or a directory
  (permission bits and named children). A path is the list of its components from the
  root directory. Symbolic links, ownership and access checks are not part of the model.
\<close>

type_synonym path = "string list"

datatype node = File nat string | Dir nat "(string \<times> node) list"

datatype errno = EEXIST | ENOENT | ENOTDIR | EISDIR | EINVAL

fun errno_text :: "errno \<Rightarrow> string" where
  "errno_text EEXIST = ''file exists''"
| "errno_text ENOENT = ''no such file or directory''"
| "errno_text ENOTDIR = ''not a directory''"
| "errno_text EISDIR = ''is a directory''"
| "errno_text EINVAL = ''invalid argument''"

fun lookup :: "node \<Rightarrow> path \<Rightarrow> node option" where
  "lookup n [] = Some n"
| "lookup (File m x) (c # cs) = None"
| "lookup (Dir m ch) (c # cs) =
     (case map_of ch c of None \<Rightarrow> None | Some sub \<Rightarrow> lookup sub cs)"

text \<open>
  \<open>put p new\<close> binds the last component of \<open>p\<close> to \<open>new\<close> in the directory above
  it, which must exist; \<open>del p\<close> removes the object at \<open>p\<close> with everything below it
  and does nothing when there is none.
\<close>

fun put :: "path \<Rightarrow> node \<Rightarrow> node \<Rightarrow> errno + node" where
  "put [] new n = Inl EINVAL"
| "put (c # cs) new (File m x) = Inl ENOTDIR"
| "put [c] new (Dir m ch) = Inr (Dir m (AList.update c new ch))"
| "put (c # d # cs) new (Dir m ch) =
     (case map_of ch c of
        None \<Rightarrow> Inl ENOENT
      | Some sub \<Rightarrow>
          (case put (d # cs) new sub of
             Inl e \<Rightarrow> Inl e
           | Inr sub' \<Rightarrow> Inr (Dir m (AList.update c sub' ch))))"

fun del :: "path \<Rightarrow> node \<Rightarrow> node" where
  "del p (File m x) = File m x"
| "del [] (Dir m ch) = Dir m []"
| "del [c] (Dir m ch) = Dir m (AList.delete c ch)"
| "del (c # d # cs) (Dir m ch) =
     (case map_of ch c of
        None \<Rightarrow> Dir m ch
      | Some sub \<Rightarrow> Dir m (AList.update c (del (d # cs) sub) ch))"

subsection \<open>The calls of package \<open>os\<close> that the installer makes\<close>

definition Stat :: "path \<Rightarrow> node \<Rightarrow> node option" where
  "Stat p root = lookup root p"

definition Mkdir :: "path \<Rightarrow> nat \<Rightarrow> node \<Rightarrow> errno + node" where
  "Mkdir p perm root =
     (case lookup root p of Some n \<Rightarrow> Inl EEXIST | None \<Rightarrow> put p (Dir perm []) root)"

text \<open>
  \<open>MkdirAll\<close> creates the directory and every missing directory above it, succeeds
  without a change when the directory is there, and fails when a file is in the way.
\<close>

fun MkdirAll :: "path \<Rightarrow> nat \<Rightarrow> node \<Rightarrow> errno + node" where
  "MkdirAll p perm (File m x) = Inl ENOTDIR"
| "MkdirAll [] perm (Dir m ch) = Inr (Dir m ch)"
| "MkdirAll (c # cs) perm (Dir m ch) =
     (case MkdirAll cs perm (case map_of ch c of None \<Rightarrow> Dir perm [] | Some sub \<Rightarrow> sub) of
        Inl e \<Rightarrow> Inl e
      | Inr sub' \<Rightarrow> Inr (Dir m (AList.update c sub' ch)))"

text \<open>
  \<open>OpenFile\<close> with the flags \<open>O_CREATE|O_RDWR\<close>: a missing file is created empty with
  the permission bits given, a file that is there is opened as it is (its bytes and
  its permission bits stay), a directory cannot be opened for writing.
\<close>

definition OpenFile :: "path \<Rightarrow> nat \<Rightarrow> node \<Rightarrow> errno + node" where
  "OpenFile p perm root =
     (case lookup root p of
        Some (Dir m ch) \<Rightarrow> Inl EISDIR
      | Some (File m old) \<Rightarrow> Inr root
      | None \<Rightarrow> put p (File perm []) root)"

text \<open>
  \<open>io.Copy\<close> into the file just opened writes the bytes from offset 0: they replace
  the first bytes of the file, and what the file held beyond them stays.
\<close>

definition Copy :: "path \<Rightarrow> string \<Rightarrow> node \<Rightarrow> node" where
  "Copy p bytes root =
     (case lookup root p of
        Some (File m old) \<Rightarrow>
          (case put p (File m (bytes @ drop (length bytes) old)) root of
             Inl e \<Rightarrow> root
           | Inr root' \<Rightarrow> root')
      | _ \<Rightarrow> root)"

definition RemoveAll :: "path \<Rightarrow> node \<Rightarrow> node" where
  "RemoveAll p root = del p root"

text \<open>
  \<open>Rename\<close>: Go refuses a new name that is an existing directory; the system call
  refuses a missing source, a directory moved onto a file or below itself, and a new
  name whose parent directory is missing.
\<close>

fun is_Dir :: "node \<Rightarrow> bool" where
  "is_Dir (Dir m ch) = True"
| "is_Dir (File m x) = False"

definition Rename :: "path \<Rightarrow> path \<Rightarrow> node \<Rightarrow> errno + node" where
  "Rename src dst root =
     (case lookup root dst of
        Some (Dir m ch) \<Rightarrow> Inl EEXIST
      | dstnode \<Rightarrow>
          (case lookup root src of
             None \<Rightarrow> Inl ENOENT
           | Some n \<Rightarrow>
               if is_Dir n \<and> dstnode \<noteq> None then Inl ENOTDIR
               else if is_Dir n \<and> prefix src dst then Inl EINVAL
               else if src = dst then Inr root
               else put dst n (del src root)))"

subsection \<open>Path names\<close>

text \<open>
  \<open>filepath.Join\<close> of a directory and a name cleans the result lexically: empty
  components and \<open>.\<close> drop out, \<open>..\<close> removes the component before it (and nothing
  at the root). A name held by the process is resolved from the root when it starts
  with a slash and from the working directory otherwise.
\<close>

fun splitPath :: "string \<Rightarrow> string list" where
  "splitPath [] = [[]]"
| "splitPath (c # cs) =
     (if c = CHR ''/'' then [] # splitPath cs
      else (case splitPath cs of [] \<Rightarrow> [[c]] | x # xs \<Rightarrow> (c # x) # xs))"

definition step :: "path \<Rightarrow> string \<Rightarrow> path" where
  "step p c = (if c = [] \<or> c = ''.'' then p else if c = ''..'' then butlast p else p @ [c])"

definition join :: "path \<Rightarrow> string \<Rightarrow> path" where
  "join base name = foldl step base (splitPath name)"

definition resolve :: "path \<Rightarrow> string \<Rightarrow> path" where
  "resolve wd s = (case s of CHR ''/'' # r \<Rightarrow> join [] s | _ \<Rightarrow> join wd s)"

definition render :: "path \<Rightarrow> string" where
  "render p = (if p = [] then ''/'' else concat (map (\<lambda>c. CHR ''/'' # c) p))"

definition PathError :: "string \<Rightarrow> path \<Rightarrow> errno \<Rightarrow> string" where
  "PathError op p e = op @ '' '' @ render p @ '': '' @ errno_text e"

definition LinkError :: "string \<Rightarrow> path \<Rightarrow> path \<Rightarrow> errno \<Rightarrow> string" where
  "LinkError op p q e = op @ '' '' @ render p @ '' '' @ render q @ '': '' @ errno_text e"

subsection \<open>The machine\<close>

text \<open>
  The state of the machine the deployer runs on: the tree of files, the working
  directory, the directory for temporary files (\<open>os.TempDir()\<close>) and the random
  suffixes that \<open>ioutil.TempDir\<close> will draw next.
\<close>

record os =
  root :: node
  cwd :: path
  tmpdir :: string
  rand :: "string list"

text \<open>
  \<open>ioutil.TempDir("", "hodor")\<close>: a new directory with permission bits \<open>0700\<close> whose
  name is \<open>hodor\<close> and a random suffix; a name that is taken makes it draw again.
\<close>

fun TempDir_try :: "path \<Rightarrow> string list \<Rightarrow> node \<Rightarrow> errno + (path \<times> node \<times> string list)" where
  "TempDir_try dir [] rt = Inl EEXIST"
| "TempDir_try dir (r # rs) rt =
     (case Mkdir (dir @ [''hodor'' @ r]) 448 rt of
        Inr rt' \<Rightarrow> Inr (dir @ [''hodor'' @ r], rt', rs)
      | Inl e \<Rightarrow> if e = EEXIST then TempDir_try dir rs rt else Inl e)"

definition TempDir :: "os \<Rightarrow> errno + (path \<times> os)" where
  "TempDir s =
     (case TempDir_try (resolve (cwd s) (tmpdir s)) (rand s) (root s) of
        Inl e \<Rightarrow> Inl e
      | Inr (p, rt, rs) \<Rightarrow> Inr (p, s\<lparr>root := rt, rand := rs\<rparr>))"

section \<open>The installer\<close>

text \<open>
  \<open>untar\<close>: one equation for each outcome of \<open>tr.Next()\<close> (end of the stream, a read
  error, a header). The result is the error, if any, and the tree afterwards.
\<close>

fun untar :: "path \<Rightarrow> tar \<Rightarrow> node \<Rightarrow> string option \<times> node" where
  "untar dest ([], None) rt = (None, rt)"
| "untar dest ([], Some e) rt = (Some (''failed to get next: '' @ e), rt)"
| "untar dest (x # xs, fin) rt =
     (let target = join dest (Name (hdr x)) in
      if Typeflag (hdr x) = TypeDir then
        (case Stat target rt of
           Some n \<Rightarrow> untar dest (xs, fin) rt
         | None \<Rightarrow>
             (case MkdirAll target 493 rt of
                Inl e \<Rightarrow>
                  (Some (''failed to create dir '' @ render target @ '': ''
                         @ PathError ''mkdir'' target e), rt)
              | Inr rt' \<Rightarrow> untar dest (xs, fin) rt'))
      else if Typeflag (hdr x) = TypeReg then
        (case OpenFile target 493 rt of
           Inl e \<Rightarrow>
             (Some (''failed to open file '' @ render target @ '': ''
                    @ PathError ''open'' target e), rt)
         | Inr rt1 \<Rightarrow>
             (let rt2 = Copy target (data x) rt1 in
              case copy_err x of
                Some e \<Rightarrow> (Some (''failed to copy file '' @ render target @ '': '' @ e), rt2)
              | None \<Rightarrow> untar dest (xs, fin) rt2))
      else untar dest (xs, fin) rt)"

definition saveTar :: "body \<Rightarrow> path \<Rightarrow> node \<Rightarrow> (string + string) \<times> node" where
  "saveTar r dest rt =
     (case r of
        NotGzip e \<Rightarrow> (Inl (''failed to create reader: '' @ e), rt)
      | Gzip tr \<Rightarrow>
          (case Next tr of
             EOF \<Rightarrow> (Inl ''failed to read the first header: EOF'', rt)
           | NextErr e \<Rightarrow> (Inl (''failed to read the first header: '' @ e), rt)
           | Hdr x tr' \<Rightarrow>
               if Typeflag (hdr x) \<noteq> TypeDir then (Inl ''tar must be a folder'', rt)
               else
                 (let tarRootFolder = Name (hdr x);
                      tmpRootTarget = join dest tarRootFolder
                  in (case MkdirAll tmpRootTarget 493 rt of
                        Inl e \<Rightarrow>
                          (Inl (''failed to create root dir '' @ render tmpRootTarget @ '': ''
                                @ PathError ''mkdir'' tmpRootTarget e), rt)
                      | Inr rt1 \<Rightarrow>
                          (case untar dest tr' rt1 of
                             (Some e, rt2) \<Rightarrow> (Inl (''failed to extract: '' @ e), rt2)
                           | (None, rt2) \<Rightarrow> (Inr tarRootFolder, rt2))))))"

text \<open>
  \<open>handleJob\<close>. The result is the returned error (\<open>None\<close> for \<open>nil\<close>) and the machine
  afterwards. The deferred \<open>os.RemoveAll(tmpDest)\<close> runs on every exit after the
  temporary directory was made. \<open>os.RemoveAll\<close> and \<open>os.Rename\<close> of the empty name do
  nothing and fail, respectively.
\<close>

definition handleJob ::
  "(string \<Rightarrow> string) \<Rightarrow> FileDeployer \<Rightarrow> job \<Rightarrow> os \<Rightarrow> string option \<times> os" where
  "handleJob fmtq fd job s =
     (case config fd (releaseID job) of
        None \<Rightarrow>
          (Some (''releaseID '' @ fmtq (releaseID job) @ '' not found from the config''), s)
      | Some targetFolder \<Rightarrow>
          (case client fd (releaseURL job) of
             Inl e \<Rightarrow> (Some (''failed to get file: '' @ e), s)
           | Inr res \<Rightarrow>
               (case TempDir s of
                  Inl e \<Rightarrow> (Some (''failed to create tmp dir: '' @ errno_text e), s)
                | Inr (tmpDest, s1) \<Rightarrow>
                    (case
                       (case saveTar res tmpDest (root s1) of
                          (Inl e, rt2) \<Rightarrow> (Some (''failed to save tar file: '' @ e), rt2)
                        | (Inr tarRootFolder, rt2) \<Rightarrow>
                            (let target = resolve (cwd s1) targetFolder;
                                 rt3 = (if targetFolder = [] then rt2
                                        else RemoveAll target rt2)
                             in (case (if targetFolder = [] then Inl ENOENT
                                       else Rename (join tmpDest tarRootFolder) target rt3) of
                                   Inl e \<Rightarrow>
                                     (Some (''failed to rename folder: ''
                                            @ LinkError ''rename'' (join tmpDest tarRootFolder)
                                                target e), rt3)
                                 | Inr rt4 \<Rightarrow> (None, rt4))))
                     of (err, rt5) \<Rightarrow> (err, s1\<lparr>root := RemoveAll tmpDest rt5\<rparr>)))))"

section \<open>The worker\<close>

text \<open>
  The body of the loop of \<open>processJobs\<close> once a job has passed the stop check:
  install, then record the outcome; a status that cannot be saved is written to the
  log and nothing else happens.
\<close>

definition runJob ::
  "(string \<Rightarrow> string) \<Rightarrow> job \<Rightarrow> FileDeployer \<times> os \<Rightarrow> FileDeployer \<times> os" where
  "runJob fmtq job w =
     (case w of (fd, s) \<Rightarrow>
        (case handleJob fmtq fd job s of
           (Some err, s') \<Rightarrow>
             (case saveJobStatus fd (job_id job) ''failed'' err of
                Inl err2 \<Rightarrow>
                  (fd\<lparr>logger := logger fd @
                       [\<lparr>log_error = err2,
                         log_msg = ''job failed: failed to save status. Error was: '' @ err\<rparr>]\<rparr>,
                   s')
              | Inr fd' \<Rightarrow> (fd', s'))
         | (None, s') \<Rightarrow>
             (case saveJobStatus fd (job_id job) ''ok'' ''job done'' of
                Inl err \<Rightarrow>
                  (fd\<lparr>logger := logger fd @
                       [\<lparr>log_error = err, log_msg = ''job ok: failed to save status''\<rparr>]\<rparr>,
                   s')
              | Inr fd' \<Rightarrow> (fd', s'))))"

text \<open>
  \<open>processJobs\<close> runs until the loop returns (the channel is closed and drained, or a
  job was taken while the stop flag was set) or has to wait for the next job. The
  buffered jobs are the argument of the recursion; the channel of the deployer holds
  what is left of them at every round.
\<close>

datatype exit = Returned | Waiting

fun rounds ::
  "(string \<Rightarrow> string) \<Rightarrow> nat \<Rightarrow> bool \<Rightarrow> job list \<Rightarrow> FileDeployer \<times> os
     \<Rightarrow> exit \<times> FileDeployer \<times> os" where
  "rounds fmtq n cl [] (fd, s) =
     ((if cl then Returned else Waiting), fd\<lparr>jobs := Chan n [] cl\<rparr>, s)"
| "rounds fmtq n cl (job # js) (fd, s) =
     (if getStop fd then (Returned, fd\<lparr>jobs := Chan n js cl\<rparr>, s)
      else rounds fmtq n cl js (runJob fmtq job (fd\<lparr>jobs := Chan n js cl\<rparr>, s)))"

definition processJobs ::
  "(string \<Rightarrow> string) \<Rightarrow> FileDeployer \<times> os \<Rightarrow> exit \<times> FileDeployer \<times> os" where
  "processJobs fmtq w =
     (case w of (fd, s) \<Rightarrow>
        (case jobs fd of
           NilChan \<Rightarrow> (Waiting, fd, s)
         | Chan n js cl \<Rightarrow> rounds fmtq n cl js (fd, s)))"

text \<open>
  \<open>Start\<close> makes the channel and clears the stop flag before it enters the loop;
  \<open>Stop\<close> closes the channel and sets the flag (closing a nil or closed channel
  panics).
\<close>

definition Start_init :: "FileDeployer \<Rightarrow> FileDeployer" where
  "Start_init fd = fd\<lparr>jobs := Chan jobSize [] False, stop := False\<rparr>"

definition Start ::
  "(string \<Rightarrow> string) \<Rightarrow> FileDeployer \<times> os \<Rightarrow> exit \<times> FileDeployer \<times> os" where
  "Start fmtq w = (case w of (fd, s) \<Rightarrow> processJobs fmtq (Start_init fd, s))"

definition Stop :: "FileDeployer \<Rightarrow> error + FileDeployer" where
  "Stop fd =
     (case close_chan (jobs fd) of
        None \<Rightarrow> Inl (Panic ''close of nil or closed channel'')
      | Some c \<Rightarrow> Inr (fd\<lparr>jobs := c, stop := True\<rparr>))"

section \<open>Scenarios and example values\<close>

text \<open>
  A sequence of submissions with no other activity in between: each request is the
  identifier drawn for the job, the release and the URL; the result lists what each
  call returned.
\<close>

fun deploys ::
  "FileDeployer \<Rightarrow> (string \<times> string \<times> string) list \<Rightarrow> (error + string) list \<times> FileDeployer" where
  "deploys fd [] = ([], fd)"
| "deploys fd ((xid, rid, url) # rs) =
     (case Deploy xid fd rid url of
        (r, fd') \<Rightarrow> (case deploys fd' rs of (out, fd'') \<Rightarrow> (r # out, fd'')))"

definition demo_fd :: FileDeployer where
  "demo_fd =
     \<lparr>db = \<lparr>db_kv = Map.empty, db_closed = False\<rparr>, config = Map.empty, jobs = NilChan,
      stop = False, client = (\<lambda>u. Inl ''connection refused''), serde = lineSerde,
      logger = []\<rparr>"

definition demo_reqs :: "nat \<Rightarrow> (string \<times> string \<times> string) list" where
  "demo_reqs n = map (\<lambda>k. (replicate (Suc k) (CHR ''j''), ''XX'', ''http://xx'')) [0..<n]"

section \<open>Properties of submission\<close>

lemma saveJobStatus_Inr:
  "saveJobStatus fd k st m = Inr fd1 \<Longrightarrow>
     \<exists>buf. Marshal (serde fd) \<lparr>Status = st, Message = m\<rparr> = Inr buf \<and> \<not> db_closed (db fd)
        \<and> fd1 = fd\<lparr>db := (db fd)\<lparr>db_kv := (db_kv (db fd))(k \<mapsto> buf)\<rparr>\<rparr>"
  by (auto simp: saveJobStatus_def db_Set_def split: sum.splits if_splits)

lemma GetStatus_stored:
  "db_kv (db fd) k = Some buf \<Longrightarrow> \<not> db_closed (db fd) \<Longrightarrow>
   GetStatus fmtq fd k =
     (case Unmarshal (serde fd) buf of
        Inl e \<Rightarrow> Inl (''failed to unmarshal job status: '' @ e) | Inr v \<Rightarrow> Inr v)"
  by (simp add: GetStatus_def db_Get_def)

lemma GetStatus_after_save:
  assumes "saveJobStatus fd k st m = Inr fd1"
  shows "GetStatus fmtq fd1 k \<noteq> Inl (''key '' @ fmtq k @ '' not found'')"
    and "roundtrips (serde fd) \<lparr>Status = st, Message = m\<rparr> \<Longrightarrow>
         GetStatus fmtq fd1 k = Inr \<lparr>Status = st, Message = m\<rparr>"
  using saveJobStatus_Inr[OF assms]
  by (auto simp: GetStatus_def db_Get_def roundtrips_def split: sum.splits)

lemma Deploy_cases:
  "Deploy xid fd rid url =
     (if stop fd then (Inl (Error ''deployer is stopped''), fd)
      else case saveJobStatus fd xid ''created'' ''job has been created'' of
          Inl e \<Rightarrow> (Inl (Error (''failed to set job status: '' @ e)), fd)
        | Inr fd1 \<Rightarrow>
            (case try_send (jobs fd1) (newJob xid rid url) of
               Sent c \<Rightarrow> (Inr xid, fd1\<lparr>jobs := c\<rparr>)
             | WouldBlock \<Rightarrow> (Inl (Error ''buffer is full, re-try later''), fd1)
             | SendPanic \<Rightarrow> (Inl (Panic ''send on closed channel''), fd1)))"
  by (simp add: Deploy_def getStop_def Let_def newJob_def split: sum.split send_result.split)

lemma Deploy_Inr:
  assumes "Deploy xid fd rid url = (Inr jobID, fd')"
  shows "jobID = xid \<and>
    (\<exists>fd1 c. saveJobStatus fd xid ''created'' ''job has been created'' = Inr fd1
        \<and> try_send (jobs fd1) (newJob xid rid url) = Sent c \<and> fd' = fd1\<lparr>jobs := c\<rparr>)"
proof (cases "stop fd")
  case True
  with assms show ?thesis by (simp add: Deploy_cases)
next
  case False
  show ?thesis
  proof (cases "saveJobStatus fd xid ''created'' ''job has been created''")
    case (Inl e)
    with assms False show ?thesis by (simp add: Deploy_cases)
  next
    case (Inr fd1)
    with assms False show ?thesis
      by (cases "try_send (jobs fd1) (newJob xid rid url)") (auto simp add: Deploy_cases)
  qed
qed

text \<open>
  Claim C2. A call of \<open>Deploy\<close> that returns a job id has saved the status
  \<open>created\<close> with the message \<open>job has been created\<close> under that id and only then
  put the job on the channel. A \<open>GetStatus\<close> on the id right afterwards, whatever the
  worker has done or not done, does not answer "not found", and answers \<open>created\<close>
  when the serde gives back what it was given.
\<close>

theorem Deploy_persists_created:
  assumes "Deploy xid fd rid url = (Inr jobID, fd')"
  shows "jobID = xid \<and>
    (\<exists>fd1 c. saveJobStatus fd xid ''created'' ''job has been created'' = Inr fd1
        \<and> try_send (jobs fd1) (newJob xid rid url) = Sent c \<and> fd' = fd1\<lparr>jobs := c\<rparr>)
    \<and> GetStatus fmtq fd' jobID \<noteq> Inl (''key '' @ fmtq jobID @ '' not found'')
    \<and> (roundtrips (serde fd) created_status \<longrightarrow> GetStatus fmtq fd' jobID = Inr created_status)"
proof -
  from Deploy_Inr[OF assms] obtain fd1 c where
    s: "saveJobStatus fd xid ''created'' ''job has been created'' = Inr fd1" and
    t: "try_send (jobs fd1) (newJob xid rid url) = Sent c" and
    e: "fd' = fd1\<lparr>jobs := c\<rparr>" and j: "jobID = xid"
    by blast
  have g: "GetStatus fmtq fd' k = GetStatus fmtq fd1 k" for k
    by (simp add: e GetStatus_def split: sum.split dberr.split)
  from GetStatus_after_save[OF s, of fmtq]
  have "GetStatus fmtq fd' jobID \<noteq> Inl (''key '' @ fmtq jobID @ '' not found'')"
    and "roundtrips (serde fd) created_status \<longrightarrow> GetStatus fmtq fd' jobID = Inr created_status"
    unfolding g j created_status_def by blast+
  with Deploy_Inr[OF assms] show ?thesis by blast
qed

lemma Deploy_full:
  assumes "Deploy xid fd rid url = (Inl (Error ''buffer is full, re-try later''), fd')"
  shows "saveJobStatus fd xid ''created'' ''job has been created'' = Inr fd'"
proof (cases "stop fd")
  case True
  with assms show ?thesis by (simp add: Deploy_cases)
next
  case False
  show ?thesis
  proof (cases "saveJobStatus fd xid ''created'' ''job has been created''")
    case (Inl e)
    with assms False show ?thesis by (simp add: Deploy_cases)
  next
    case (Inr fd1)
    with assms False show ?thesis
      by (cases "try_send (jobs fd1) (newJob xid rid url)") (auto simp add: Deploy_cases)
  qed
qed

text \<open>
  Claim C10. When \<open>Deploy\<close> fails because the channel is full, the status \<open>created\<close>
  of the job that was not enqueued has been saved all the same and stays: the channel
  is as before, and a later \<open>GetStatus\<close> on the identifier drawn for the job answers
  \<open>created\<close> and not "not found".
\<close>

theorem Deploy_full_keeps_created:
  assumes "Deploy xid fd rid url = (Inl (Error ''buffer is full, re-try later''), fd')"
  shows "jobs fd' = jobs fd
    \<and> saveJobStatus fd xid ''created'' ''job has been created'' = Inr fd'
    \<and> GetStatus fmtq fd' xid \<noteq> Inl (''key '' @ fmtq xid @ '' not found'')
    \<and> (roundtrips (serde fd) created_status \<longrightarrow> GetStatus fmtq fd' xid = Inr created_status)"
proof -
  note s = Deploy_full[OF assms]
  have "jobs fd' = jobs fd"
    using saveJobStatus_Inr[OF s] by auto
  moreover from GetStatus_after_save[OF s, of fmtq]
  have "GetStatus fmtq fd' xid \<noteq> Inl (''key '' @ fmtq xid @ '' not found'')"
    and "roundtrips (serde fd) created_status \<longrightarrow> GetStatus fmtq fd' xid = Inr created_status"
    unfolding created_status_def by blast+
  ultimately show ?thesis using s by blast
qed


lemma Deploy_open:
  assumes m: "Marshal (serde fd) created_status = Inr buf"
    and d: "\<not> db_closed (db fd)" and s: "\<not> stop fd" and c: "jobs fd = Chan n xs False"
  shows "Deploy xid fd rid url =
     (if length xs < n
      then (Inr xid, fd\<lparr>db := (db fd)\<lparr>db_kv := (db_kv (db fd))(xid \<mapsto> buf)\<rparr>,
                        jobs := Chan n (xs @ [newJob xid rid url]) False\<rparr>)
      else (Inl (Error ''buffer is full, re-try later''),
            fd\<lparr>db := (db fd)\<lparr>db_kv := (db_kv (db fd))(xid \<mapsto> buf)\<rparr>\<rparr>))"
proof -
  have "saveJobStatus fd xid ''created'' ''job has been created''
          = Inr (fd\<lparr>db := (db fd)\<lparr>db_kv := (db_kv (db fd))(xid \<mapsto> buf)\<rparr>\<rparr>)"
    using m d by (simp add: saveJobStatus_def db_Set_def created_status_def)
  then show ?thesis
    using s c by (simp add: Deploy_cases)
qed

lemma deploys_fill:
  assumes "Marshal (serde fd) created_status = Inr buf" "\<not> db_closed (db fd)" "\<not> stop fd"
    and "jobs fd = Chan n xs False"
  shows "fst (deploys fd rs) =
           map (\<lambda>r. Inr (fst r)) (take (n - length xs) rs)
           @ replicate (length rs - (n - length xs)) (Inl (Error ''buffer is full, re-try later''))
       \<and> jobs (snd (deploys fd rs)) =
           Chan n (xs @ map (\<lambda>(x, r, u). newJob x r u) (take (n - length xs) rs)) False"
  using assms
proof (induction rs arbitrary: fd xs)
  case Nil
  then show ?case by simp
next
  case (Cons a rs)
  obtain xid rid url where a: "a = (xid, rid, url)" by (cases a)
  let ?db = "(db fd)\<lparr>db_kv := (db_kv (db fd))(xid \<mapsto> buf)\<rparr>"
  show ?case
  proof (cases "length xs < n")
    case True
    let ?fd = "fd\<lparr>db := ?db, jobs := Chan n (xs @ [newJob xid rid url]) False\<rparr>"
    have D: "Deploy xid fd rid url = (Inr xid, ?fd)"
      using Deploy_open[OF Cons.prems, of xid rid url] True by simp
    have IH: "fst (deploys ?fd rs) =
           map (\<lambda>r. Inr (fst r)) (take (n - length (xs @ [newJob xid rid url])) rs)
           @ replicate (length rs - (n - length (xs @ [newJob xid rid url])))
               (Inl (Error ''buffer is full, re-try later''))
       \<and> jobs (snd (deploys ?fd rs)) =
           Chan n ((xs @ [newJob xid rid url])
                   @ map (\<lambda>(x, r, u). newJob x r u)
                       (take (n - length (xs @ [newJob xid rid url])) rs)) False"
      by (rule Cons.IH) (use Cons.prems in simp_all)
    obtain k where k: "n - length xs = Suc k" using True by (cases "n - length xs") auto
    then have k': "n - length (xs @ [newJob xid rid url]) = k" by simp
    show ?thesis
      using IH unfolding k' a by (simp add: D k case_prod_beta)
  next
    case False
    let ?fd = "fd\<lparr>db := ?db\<rparr>"
    have D: "Deploy xid fd rid url = (Inl (Error ''buffer is full, re-try later''), ?fd)"
      using Deploy_open[OF Cons.prems, of xid rid url] False by simp
    have IH: "fst (deploys ?fd rs) =
           map (\<lambda>r. Inr (fst r)) (take (n - length xs) rs)
           @ replicate (length rs - (n - length xs)) (Inl (Error ''buffer is full, re-try later''))
       \<and> jobs (snd (deploys ?fd rs)) =
           Chan n (xs @ map (\<lambda>(x, r, u). newJob x r u) (take (n - length xs) rs)) False"
      by (rule Cons.IH) (use Cons.prems in simp_all)
    have z: "n - length xs = 0" using False by simp
    show ?thesis
      using IH unfolding z a by (simp add: D case_prod_beta)
  qed
qed

text \<open>
  Claim C3. The channel made by \<open>Start\<close> holds 50 jobs. Of any number of submissions
  made while nothing is taken from the channel, the first 50 return their job id and
  every later one returns the error \<open>buffer is full, re-try later\<close> at once; the
  channel then holds the first 50 jobs in the order of their submission. (The status
  can be saved: the serde marshals it and the store is open.)
\<close>

theorem Deploy_backpressure:
  assumes "Marshal (serde fd) created_status = Inr buf" and "\<not> db_closed (db fd)"
  shows "fst (deploys (Start_init fd) rs) =
           map (\<lambda>r. Inr (fst r)) (take 50 rs)
           @ replicate (length rs - 50) (Inl (Error ''buffer is full, re-try later''))
       \<and> jobs (snd (deploys (Start_init fd) rs)) =
           Chan 50 (map (\<lambda>(x, r, u). newJob x r u) (take 50 rs)) False"
  using deploys_fill[of "Start_init fd" buf 50 "[]" rs] assms
  by (simp add: Start_init_def jobSize_def)

theorem Deploy_persists_created_witness:
  "Deploy ''j1'' (Start_init demo_fd) ''XX'' ''u''
     = (Inr ''j1'', snd (Deploy ''j1'' (Start_init demo_fd) ''XX'' ''u''))
   \<and> roundtrips (serde (Start_init demo_fd)) created_status
   \<and> GetStatus (\<lambda>s. s) (snd (Deploy ''j1'' (Start_init demo_fd) ''XX'' ''u'')) ''j1''
       = Inr created_status"
proof -
  have m: "Marshal (serde (Start_init demo_fd)) created_status
             = Inr (''created'' @ CHR 0x0A # ''job has been created'')"
    by (simp add: Start_init_def demo_fd_def lineSerde_def created_status_def)
  have h: "Deploy ''j1'' (Start_init demo_fd) ''XX'' ''u''
     = (Inr ''j1'', snd (Deploy ''j1'' (Start_init demo_fd) ''XX'' ''u''))"
    by (subst (1 2) Deploy_open[OF m, where n = 50 and xs = "[]"])
       (simp_all add: Start_init_def demo_fd_def jobSize_def)
  have r: "roundtrips (serde (Start_init demo_fd)) created_status"
    by (simp add: roundtrips_def Start_init_def demo_fd_def lineSerde_def created_status_def)
  from Deploy_persists_created[OF h, of "\<lambda>s. s"] r h show ?thesis by simp
qed

theorem Deploy_backpressure_witness:
  "Marshal (serde demo_fd) created_status = Inr (''created'' @ CHR 0x0A # ''job has been created'')
   \<and> \<not> db_closed (db demo_fd)
   \<and> fst (deploys (Start_init demo_fd) (demo_reqs 51)) ! 49 = Inr (replicate 50 (CHR ''j''))
   \<and> fst (deploys (Start_init demo_fd) (demo_reqs 51)) ! 50
       = Inl (Error ''buffer is full, re-try later'')"
proof -
  have m: "Marshal (serde demo_fd) created_status
             = Inr (''created'' @ CHR 0x0A # ''job has been created'')"
    by (simp add: demo_fd_def lineSerde_def created_status_def)
  have d: "\<not> db_closed (db demo_fd)"
    by (simp add: demo_fd_def)
  have l: "length (demo_reqs 51) = 51"
    by (simp add: demo_reqs_def)
  have n: "fst (demo_reqs 51 ! 49) = replicate 50 (CHR ''j'')"
    unfolding demo_reqs_def by (subst nth_map) simp_all
  from Deploy_backpressure[OF m d, of "demo_reqs 51"] m d l n show ?thesis
    by (simp add: nth_append)
qed

theorem Deploy_full_keeps_created_witness:
  "Deploy ''j1'' (demo_fd\<lparr>jobs := Chan 0 [] False\<rparr>) ''XX'' ''u''
     = (Inl (Error ''buffer is full, re-try later''),
        snd (Deploy ''j1'' (demo_fd\<lparr>jobs := Chan 0 [] False\<rparr>) ''XX'' ''u''))
   \<and> roundtrips (serde (demo_fd\<lparr>jobs := Chan 0 [] False\<rparr>)) created_status
   \<and> GetStatus (\<lambda>s. s) (snd (Deploy ''j1'' (demo_fd\<lparr>jobs := Chan 0 [] False\<rparr>) ''XX'' ''u''))
        ''j1'' = Inr created_status"
proof -
  let ?fd = "demo_fd\<lparr>jobs := Chan 0 [] False\<rparr>"
  have m: "Marshal (serde ?fd) created_status
             = Inr (''created'' @ CHR 0x0A # ''job has been created'')"
    by (simp add: demo_fd_def lineSerde_def created_status_def)
  have h: "Deploy ''j1'' ?fd ''XX'' ''u''
     = (Inl (Error ''buffer is full, re-try later''), snd (Deploy ''j1'' ?fd ''XX'' ''u''))"
    by (subst (1 2) Deploy_open[OF m, where n = 0 and xs = "[]"])
       (simp_all add: demo_fd_def)
  have r: "roundtrips (serde ?fd) created_status"
    by (simp add: roundtrips_def demo_fd_def lineSerde_def created_status_def)
  from Deploy_full_keeps_created[OF h, of "\<lambda>s. s"] r h show ?thesis by simp
qed

end
